theory Spec2Isabelle
  imports Main "HOL-Library.AList" "HOL-Library.Sublist"
begin

section \<open>kindle\_maker: the e-book library \<^verbatim>\<open>kindle_maker/ebooklib.py\<close>\<close>

text \<open>
  A shallow embedding of \<^verbatim>\<open>src/kindle_maker/ebooklib.py\<close>. Python strings are
  modelled as HOL strings, one \<^typ>\<open>char\<close> per code point (code points 0..255);
  exceptions are values of the type \<open>error\<close>, and a method that mutates its object
  returns the object after the call next to its result. Definitions carry the names of
  the source without a leading underscore; where two classes share a name, or the name
  is a keyword, the class name is put in front (\<open>Ebook_create\<close> is
  \<^verbatim>\<open>Ebook._create\<close>, \<open>create\<close> is \<^verbatim>\<open>EbookUtil.create\<close>).
\<close>

subsection \<open>Exceptions and dynamically typed values\<close>

datatype error =
    ValueError
  | TypeError
  | AssertionError
  | NotImplementedError
  | AttributeError
  | FileNotFoundError
  | SameFileError
  | Exception string

text \<open>
  The values that reach a parameter whose annotation Python does not enforce
  (\<^verbatim>\<open>level\<close> of \<^verbatim>\<open>Chapter.__init__\<close>): \<^verbatim>\<open>None\<close>, a \<^verbatim>\<open>str\<close>, an \<^verbatim>\<open>int\<close>,
  or a reference to the owning \<^verbatim>\<open>Ebook\<close>.
\<close>

datatype pyval = PNone | PStr string | PInt int | PEbook

text \<open>Truth value of an optional string: \<^verbatim>\<open>None\<close> and the empty string are false.\<close>

fun truthy :: "string option \<Rightarrow> bool" where
  "truthy None = False"
| "truthy (Some s) = (s \<noteq> [])"

subsection \<open>\<^verbatim>\<open>format_file_name\<close>\<close>

text \<open>
  \<^verbatim>\<open>re.sub(r'[/\\?%*:|"\'<>.,;=\s+&#]+', '', path)\<close>.
  The character class holds the eighteen listed characters and \<^verbatim>\<open>\s\<close>, which for a
  \<^verbatim>\<open>str\<close> pattern is Unicode white space; below code point 256 these are 9..13,
  28..32, 133 and 160.
\<close>

definition re_whitespace :: "char \<Rightarrow> bool" where
  "re_whitespace c =
     (of_char c \<in> {9, 10, 11, 12, 13, 28, 29, 30, 31, 32, 133, 160 :: nat})"

definition illegal_characters :: "char list" where
  "illegal_characters =
     [CHR ''/'', CHR 0x5C, CHR ''?'', CHR ''%'', CHR ''*'', CHR '':'', CHR ''|'',
      CHR 0x22, CHR 0x27, CHR ''<'', CHR ''>'', CHR ''.'', CHR '','', CHR '';'',
      CHR ''='', CHR ''+'', CHR ''&'', CHR ''#'']"

definition illegal :: "char \<Rightarrow> bool" where
  "illegal c = (c \<in> set illegal_characters \<or> re_whitespace c)"

text \<open>
  \<^verbatim>\<open>re.sub\<close> for a pattern \<^verbatim>\<open>[class]+\<close>: scanning from the left, every maximal run
  of characters of the class is one match and is replaced by \<open>repl\<close>; the other
  characters are copied.
\<close>

function re_sub_class :: "(char \<Rightarrow> bool) \<Rightarrow> string \<Rightarrow> string \<Rightarrow> string" where
  "re_sub_class P repl [] = []"
| "re_sub_class P repl (c # cs) =
     (if P c then repl @ re_sub_class P repl (dropWhile P cs)
      else c # re_sub_class P repl cs)"
  by pat_completeness auto
termination
  by (relation "measure (\<lambda>(P, repl, s). length s)")
     (auto simp: length_dropWhile_le le_imp_less_Suc)

definition format_file_name :: "string \<Rightarrow> string" where
  "format_file_name path = re_sub_class illegal [] path"

subsection \<open>Files\<close>

text \<open>
  The file system is a finite table from path strings to file contents. Paths are POSIX
  paths, and a file is identified by the string of its path. The paths a caller supplies
  are looked up as they are given; the one relative path the library makes itself, the
  destination of the EPUB archive, is resolved against the working directory.
  Directories are not stored: a file is below a directory when the directory's path and
  a separator begin its path. Only a missing source file makes an operation fail.
\<close>

datatype compression = ZIP_STORED | ZIP_DEFLATED

datatype file_content =
    Data string
  | ZipFile compression "(string \<times> file_content) list"

record world =
  files :: "(string \<times> file_content) list"

type_synonym 'a result = "error + 'a"

definition is_file :: "world \<Rightarrow> string \<Rightarrow> bool" where
  "is_file w p = (map_of (files w) p \<noteq> None)"

definition write_file :: "string \<Rightarrow> file_content \<Rightarrow> world \<Rightarrow> world" where
  "write_file p c w = w\<lparr>files := AList.update p c (files w)\<rparr>"

text \<open>\<^verbatim>\<open>a / b\<close> of pathlib and \<^verbatim>\<open>os.path.join(a, b)\<close>, for a relative \<open>b\<close>.\<close>

definition path_join :: "string \<Rightarrow> string \<Rightarrow> string" where
  "path_join a b = a @ ''/'' @ b"

definition basename :: "string \<Rightarrow> string" where
  "basename p = rev (takeWhile (\<lambda>c. c \<noteq> CHR ''/'') (rev p))"

text \<open>
  \<^verbatim>\<open>shutil.copy(src, dst)\<close> where \<open>dst\<close> is a directory: the file keeps its base name.
\<close>

definition shutil_copy_into :: "string \<Rightarrow> string \<Rightarrow> world \<Rightarrow> unit result \<times> world" where
  "shutil_copy_into src dir w =
     (case map_of (files w) src of
        None \<Rightarrow> (Inl FileNotFoundError, w)
      | Some c \<Rightarrow>
          (let dst = path_join dir (basename src)
           in if dst = src then (Inl SameFileError, w)
              else (Inr (), write_file dst c w)))"

text \<open>\<^verbatim>\<open>shutil.copy(src, dst)\<close> where \<open>dst\<close> names the destination file.\<close>

definition shutil_copy_file :: "string \<Rightarrow> string \<Rightarrow> world \<Rightarrow> unit result \<times> world" where
  "shutil_copy_file src dst w =
     (case map_of (files w) src of
        None \<Rightarrow> (Inl FileNotFoundError, w)
      | Some c \<Rightarrow>
          if dst = src then (Inl SameFileError, w)
          else (Inr (), write_file dst c w))"

text \<open>
  The files that \<^verbatim>\<open>os.walk(d)\<close> reports, each as
  \<^verbatim>\<open>os.path.join(root, file)\<close> with its content: every file below \<open>d\<close>, at any
  depth. The file system chooses the order of a listing: \<open>rank\<close> gives every path
  its place in that order, and files of equal rank keep the order of the table.
\<close>

definition below :: "string \<Rightarrow> string \<Rightarrow> bool" where
  "below d p = (prefix (d @ ''/'') p \<and> p \<noteq> d @ ''/'')"

definition os_walk_files ::
  "(string \<Rightarrow> nat) \<Rightarrow> string \<Rightarrow> world \<Rightarrow> (string \<times> file_content) list" where
  "os_walk_files rank d w =
     sort_key (\<lambda>f. rank (fst f)) (filter (\<lambda>(p, c). below d p) (files w))"

text \<open>
  \<^verbatim>\<open>posixpath.join(a, b)\<close>, and the file that a path \<open>p\<close> names for a process
  whose working directory is \<open>cwd\<close>.
\<close>

definition os_path_join :: "string \<Rightarrow> string \<Rightarrow> string" where
  "os_path_join a b =
     (if prefix ''/'' b then b
      else if a = [] \<or> last a = CHR ''/'' then a @ b
      else a @ ''/'' @ b)"

definition abspath :: "string \<Rightarrow> string \<Rightarrow> string" where
  "abspath cwd p = os_path_join cwd p"

text \<open>\<^verbatim>\<open>str.split('/')\<close> and \<^verbatim>\<open>'/'.join\<close>.\<close>

fun split_sep :: "string \<Rightarrow> string list" where
  "split_sep [] = [[]]"
| "split_sep (c # cs) =
     (if c = CHR ''/'' then [] # split_sep cs
      else (case split_sep cs of
              [] \<Rightarrow> [[c]]
            | x # xs \<Rightarrow> (c # x) # xs))"

fun join_sep :: "string list \<Rightarrow> string" where
  "join_sep [] = []"
| "join_sep [x] = x"
| "join_sep (x # y # ys) = x @ ''/'' @ join_sep (y # ys)"

text \<open>
  \<^verbatim>\<open>str(pathlib.Path(s))\<close>: the root (one separator, or two when the string begins
  with exactly two), then the components that are neither empty nor \<^verbatim>\<open>.\<close>, joined;
  \<^verbatim>\<open>.\<close> when nothing is left.
\<close>

definition pathlib_str :: "string \<Rightarrow> string" where
  "pathlib_str s =
     (let root =
            (if prefix ''/'' s
             then (if prefix ''//'' s \<and> \<not> prefix ''///'' s then ''//'' else ''/'')
             else []);
          parts = filter (\<lambda>x. x \<noteq> [] \<and> x \<noteq> ''.'') (split_sep s);
          p = root @ join_sep parts
      in if p = [] then ''.'' else p)"

text \<open>\<^verbatim>\<open>posixpath.normpath\<close>: the loop over the components, then the function.\<close>

fun normpath_comps :: "nat \<Rightarrow> string list \<Rightarrow> string list \<Rightarrow> string list" where
  "normpath_comps initial_slashes [] new_comps = new_comps"
| "normpath_comps initial_slashes (x # xs) new_comps =
     (if x = [] \<or> x = ''.'' then normpath_comps initial_slashes xs new_comps
      else if x \<noteq> ''..'' \<or> (initial_slashes = 0 \<and> new_comps = [])
                \<or> (new_comps \<noteq> [] \<and> last new_comps = ''..'')
           then normpath_comps initial_slashes xs (new_comps @ [x])
      else if new_comps \<noteq> []
           then normpath_comps initial_slashes xs (butlast new_comps)
      else normpath_comps initial_slashes xs new_comps)"

definition normpath :: "string \<Rightarrow> string" where
  "normpath path =
     (if path = [] then ''.''
      else
        (let initial_slashes =
               (if prefix ''/'' path
                then (if prefix ''//'' path \<and> \<not> prefix ''///'' path then 2 else 1)
                else 0);
             joined = join_sep (normpath_comps initial_slashes (split_sep path) []);
             p = replicate initial_slashes CHR ''/'' @ joined
         in if p = [] then ''.'' else p))"

text \<open>
  The archive name \<^verbatim>\<open>ZipFile.write(filename)\<close> gives an entry when no
  \<^verbatim>\<open>arcname\<close> is passed: the normalised path without its leading separators.
\<close>

definition zip_arcname :: "string \<Rightarrow> string" where
  "zip_arcname filename = dropWhile (\<lambda>c. c = CHR ''/'') (normpath filename)"

subsection \<open>\<^verbatim>\<open>class Chapter\<close>\<close>

text \<open>
  The back reference \<^verbatim>\<open>_ebook\<close> is not stored: a chapter is staged by the book that
  holds it. \<open>content\<close> is \<open>None\<close> until \<^verbatim>\<open>set_content\<close> stores a string (the
  constructor leaves a value there that is not a string).
\<close>

datatype Chapter =
  Chapter (title: string) (level: pyval) (content: "string option")
    (static_files: "string list") (sub_chapters: "Chapter list")

definition max_level :: int where
  "max_level = 2"

text \<open>
  \<^verbatim>\<open>dest_file_path\<close> is the \<^verbatim>\<open>pathlib\<close> path of the sanitised title with
  \<^verbatim>\<open>.html\<close>; the model has its string, which \<^verbatim>\<open>pathlib\<close> leaves as it is.
\<close>

definition Chapter_dest_file_path :: "Chapter \<Rightarrow> string" where
  "Chapter_dest_file_path self = format_file_name (Chapter.title self) @ ''.html''"

definition is_top_chapter :: "Chapter \<Rightarrow> bool" where
  "is_top_chapter self = (level self = PInt 1)"

definition set_content :: "Chapter \<Rightarrow> string \<Rightarrow> Chapter" where
  "set_content self c =
     Chapter (Chapter.title self) (level self) (Some c) (static_files self) (sub_chapters self)"

text \<open>
  \<^verbatim>\<open>add_static_files\<close>: the loop of assertions, then the \<^verbatim>\<open>extend\<close>. The result
  is paired with the chapter after the call.
\<close>

fun assert_files :: "world \<Rightarrow> string list \<Rightarrow> error option" where
  "assert_files w [] = None"
| "assert_files w (f # fs) =
     (if is_file w f then assert_files w fs else Some AssertionError)"

definition add_static_files ::
  "world \<Rightarrow> Chapter \<Rightarrow> string list \<Rightarrow> Chapter result \<times> Chapter" where
  "add_static_files w self file_path =
     (case assert_files w file_path of
        Some e \<Rightarrow> (Inl e, self)
      | None \<Rightarrow>
          (let self' = Chapter (Chapter.title self) (level self) (content self)
                         (static_files self @ file_path) (sub_chapters self)
           in (Inr self', self')))"

subsubsection \<open>Calling the constructor\<close>

text \<open>
  Python binds the arguments of a call to the parameters before the body runs:
  positional arguments from the left, then each keyword argument to the parameter of its
  name, then the defaults. More positional arguments than parameters, an unknown keyword,
  a parameter given twice or a parameter left without a value raise \<^verbatim>\<open>TypeError\<close>.
\<close>

fun bind_positional :: "string list \<Rightarrow> pyval list \<Rightarrow> (string \<times> pyval) list result" where
  "bind_positional params [] = Inr []"
| "bind_positional [] (a # args) = Inl TypeError"
| "bind_positional (p # params) (a # args) =
     (case bind_positional params args of
        Inl e \<Rightarrow> Inl e
      | Inr bound \<Rightarrow> Inr ((p, a) # bound))"

fun bind_keywords ::
  "string list \<Rightarrow> (string \<times> pyval) list \<Rightarrow> (string \<times> pyval) list
     \<Rightarrow> (string \<times> pyval) list result" where
  "bind_keywords params bound [] = Inr bound"
| "bind_keywords params bound ((k, v) # kwargs) =
     (if k \<notin> set params then Inl TypeError
      else if map_of bound k \<noteq> None then Inl TypeError
      else bind_keywords params (bound @ [(k, v)]) kwargs)"

fun bind_defaults ::
  "string list \<Rightarrow> (string \<times> pyval) list \<Rightarrow> (string \<times> pyval) list
     \<Rightarrow> (string \<times> pyval) list result" where
  "bind_defaults [] defaults bound = Inr bound"
| "bind_defaults (p # params) defaults bound =
     (case map_of bound p of
        Some v \<Rightarrow> bind_defaults params defaults bound
      | None \<Rightarrow>
          (case map_of defaults p of
             None \<Rightarrow> Inl TypeError
           | Some d \<Rightarrow> bind_defaults params defaults (bound @ [(p, d)])))"

definition bind_arguments ::
  "string list \<Rightarrow> (string \<times> pyval) list \<Rightarrow> pyval list \<Rightarrow> (string \<times> pyval) list
     \<Rightarrow> (string \<times> pyval) list result" where
  "bind_arguments params defaults args kwargs =
     (case bind_positional params args of
        Inl e \<Rightarrow> Inl e
      | Inr bound \<Rightarrow>
          (case bind_keywords params bound kwargs of
             Inl e \<Rightarrow> Inl e
           | Inr bound' \<Rightarrow> bind_defaults params defaults bound'))"

text \<open>
  \<^verbatim>\<open>def __init__(self, title: str, ebook: 'Ebook', level: int = 1)\<close>.
  A call \<^verbatim>\<open>Chapter(t, ...)\<close> passes the title, a string, first; \<open>rest\<close> are the
  positional arguments after it. The new chapter has no content, no static files and no
  sub-chapters.
\<close>

definition Chapter_params :: "string list" where
  "Chapter_params = [''title'', ''ebook'', ''level'']"

definition Chapter_defaults :: "(string \<times> pyval) list" where
  "Chapter_defaults = [(''level'', PInt 1)]"

definition Chapter_call ::
  "string \<Rightarrow> pyval list \<Rightarrow> (string \<times> pyval) list \<Rightarrow> Chapter result" where
  "Chapter_call t rest kwargs =
     (case bind_arguments Chapter_params Chapter_defaults (PStr t # rest) kwargs of
        Inl e \<Rightarrow> Inl e
      | Inr bound \<Rightarrow>
          (case map_of bound ''level'' of
             None \<Rightarrow> Inl TypeError
           | Some lv \<Rightarrow> Inr (Chapter t lv None [] [])))"

text \<open>\<^verbatim>\<open>a >= n\<close> and \<^verbatim>\<open>a + n\<close> for an integer \<open>n\<close>: only an integer \<open>a\<close> has them.\<close>

fun py_ge :: "pyval \<Rightarrow> int \<Rightarrow> bool result" where
  "py_ge (PInt a) n = Inr (a \<ge> n)"
| "py_ge _ n = Inl TypeError"

fun py_add :: "pyval \<Rightarrow> int \<Rightarrow> pyval result" where
  "py_add (PInt a) n = Inr (PInt (a + n))"
| "py_add _ n = Inl TypeError"

fun opt_str :: "string option \<Rightarrow> pyval" where
  "opt_str None = PNone"
| "opt_str (Some s) = PStr s"

text \<open>
  \<^verbatim>\<open>create_subchapter(self, chapter_title, chapter_file_path=None)\<close>. The result is
  paired with the chapter after the call.
\<close>

definition create_subchapter ::
  "Chapter \<Rightarrow> string \<Rightarrow> string option \<Rightarrow> Chapter result \<times> Chapter" where
  "create_subchapter self chapter_title chapter_file_path =
     (case py_ge (level self) max_level of
        Inl e \<Rightarrow> (Inl e, self)
      | Inr True \<Rightarrow>
          (Inl (Exception ''chapter level is great than the max level num: 2''), self)
      | Inr False \<Rightarrow>
          (case py_add (level self) 1 of
             Inl e \<Rightarrow> (Inl e, self)
           | Inr lv \<Rightarrow>
               (case Chapter_call chapter_title [PEbook, opt_str chapter_file_path]
                       [(''level'', lv)] of
                  Inl e \<Rightarrow> (Inl e, self)
                | Inr ct \<Rightarrow>
                    (Inr ct,
                     Chapter (Chapter.title self) (level self) (content self)
                       (static_files self) (sub_chapters self @ [ct])))))"

subsection \<open>\<^verbatim>\<open>class Ebook\<close> and the state of its \<^verbatim>\<open>EbookUtil\<close>\<close>

text \<open>
  A heading is the \<^verbatim>\<open>dict\<close> built by \<^verbatim>\<open>EbookUtil.headings\<close>; the entry of a
  sub-chapter has no \<^verbatim>\<open>sub_headings\<close> key.
\<close>

record sub_heading =
  sh_title :: string
  sh_play_order :: int
  sh_file_name :: string

record heading =
  h_title :: string
  h_play_order :: int
  h_file_name :: string
  sub_headings :: "sub_heading list"

text \<open>
  \<open>headings_cache\<close> is \<^verbatim>\<open>self._eu._headings\<close>, and \<open>tmpdir\<close> the staging
  directory \<^verbatim>\<open>self._tempdir\<close>.
\<close>

record Ebook =
  title :: string
  author :: "string option"
  format :: string
  auto_download_img :: bool
  cover_path :: "string option"
  cover_content :: "string option"
  tmpdir :: string
  chapter_list :: "Chapter list"
  headings_cache :: "heading list option"

text \<open>
  \<^verbatim>\<open>Ebook.__init__\<close>; \<open>tempdir\<close> is
  \<^verbatim>\<open>pathlib.Path(tempfile.gettempdir()) / str(time.time())\<close>, which the constructor
  creates.
\<close>

definition Ebook_init :: "string \<Rightarrow> string option \<Rightarrow> string \<Rightarrow> bool \<Rightarrow> string \<Rightarrow> Ebook" where
  "Ebook_init t a ebook_format auto tempdir =
     \<lparr>title = t, author = a, format = ebook_format, auto_download_img = auto,
      cover_path = None, cover_content = None, tmpdir = tempdir, chapter_list = [],
      headings_cache = None\<rparr>"

text \<open>
  \<^verbatim>\<open>dest_file_path\<close> and \<^verbatim>\<open>full_dest_file_path\<close> are \<^verbatim>\<open>pathlib\<close> paths; the
  model has their strings.
\<close>

definition Ebook_dest_file_path :: "Ebook \<Rightarrow> string" where
  "Ebook_dest_file_path self =
     pathlib_str (format_file_name (Ebook.title self) @ ''.'' @ format self)"

definition Ebook_full_dest_file_path :: "Ebook \<Rightarrow> string" where
  "Ebook_full_dest_file_path self =
     pathlib_str (os_path_join (tmpdir self) (Ebook_dest_file_path self))"

text \<open>
  The methods of \<^verbatim>\<open>Ebook\<close> that return \<^verbatim>\<open>self\<close> or raise: the result is paired
  with the book after the call.
\<close>

definition set_cover :: "Ebook \<Rightarrow> string option \<Rightarrow> string option \<Rightarrow> Ebook result \<times> Ebook" where
  "set_cover self path cnt =
     (if truthy path then
        (let self' = self\<lparr>cover_path := path, cover_content := None\<rparr>
         in (Inr self', self'))
      else if truthy cnt then
        (let self' = self\<lparr>cover_content := cnt, cover_path := None\<rparr>
         in (Inr self', self'))
      else (Inl ValueError, self))"

definition add_chapter :: "Ebook \<Rightarrow> Chapter \<Rightarrow> Ebook result \<times> Ebook" where
  "add_chapter self c =
     (if \<not> is_top_chapter c then (Inl ValueError, self)
      else
        (let self' = self\<lparr>chapter_list := chapter_list self @ [c]\<rparr>
         in (Inr self', self')))"

definition create_chapter :: "Ebook \<Rightarrow> string \<Rightarrow> Chapter result \<times> Ebook" where
  "create_chapter self chapter_title =
     (case Chapter_call chapter_title [PEbook] [] of
        Inl e \<Rightarrow> (Inl e, self)
      | Inr ct \<Rightarrow>
          (case add_chapter self ct of
             (Inl e, self') \<Rightarrow> (Inl e, self')
           | (Inr _, self') \<Rightarrow> (Inr ct, self')))"

subsection \<open>\<^verbatim>\<open>EbookUtil.headings\<close>\<close>

text \<open>
  The two nested loops, with the counter \<open>order\<close> threaded through them: the inner
  loop returns the counter with the sub-headings it appended.
\<close>

fun sub_headings_loop ::
  "int \<Rightarrow> Chapter list \<Rightarrow> sub_heading list \<Rightarrow> int \<times> sub_heading list" where
  "sub_headings_loop order [] shs = (order, shs)"
| "sub_headings_loop order (sc # scs) shs =
     (let order' = order + 1
      in sub_headings_loop order' scs
           (shs @ [\<lparr>sh_title = Chapter.title sc, sh_play_order = order',
                    sh_file_name = Chapter_dest_file_path sc\<rparr>]))"

fun headings_loop :: "int \<Rightarrow> Chapter list \<Rightarrow> heading list \<Rightarrow> heading list" where
  "headings_loop order [] hs = hs"
| "headings_loop order (c # cs) hs =
     (let order' = order + 1;
          (order'', shs) = sub_headings_loop order' (sub_chapters c) []
      in headings_loop order'' cs
           (hs @ [\<lparr>h_title = Chapter.title c, h_play_order = order',
                   h_file_name = Chapter_dest_file_path c, sub_headings = shs\<rparr>]))"

text \<open>
  The property: a cached list that is neither \<^verbatim>\<open>None\<close> nor empty is returned as it
  is; otherwise the loops run from \<^verbatim>\<open>order = 1\<close> and their result is cached.
\<close>

definition headings :: "Ebook \<Rightarrow> heading list \<times> Ebook" where
  "headings self =
     (case headings_cache self of
        Some (h # hs) \<Rightarrow> (h # hs, self)
      | _ \<Rightarrow>
          (let hs = headings_loop 1 (chapter_list self) []
           in (hs, self\<lparr>headings_cache := Some hs\<rparr>)))"

subsection \<open>Staging and packaging\<close>

text \<open>
  What the staging code calls and does not decide itself is a parameter: the template
  engine, \<^verbatim>\<open>download_image\<close> (its result depends on the network and on the image
  codec), sub-processes, \<^verbatim>\<open>os.startfile\<close>, and the values \<^verbatim>\<open>kindlegen\<close> (the
  converter's path), \<^verbatim>\<open>pathlib.Path(__file__).parent\<close> and
  \<^verbatim>\<open>platform.system()\<close>. The template engine is taken to return a document for
  every context. The file system adds the working directory \<open>cwd\<close> of the process
  and the order \<open>walk_rank\<close> of its listings. \<open>read_open_archive\<close> is what a
  read of the archive's own file returns while the archive is being written, given the
  entries written so far.
\<close>

record render_context =
  ctx_headings :: "heading list"
  ctx_title :: "string option"
  ctx_author :: "string option"

record externals =
  render :: "string \<Rightarrow> render_context \<Rightarrow> string"
  download_image :: "string \<Rightarrow> string \<Rightarrow> world \<Rightarrow> string result \<times> world"
  subprocess_call :: "string list \<Rightarrow> world \<Rightarrow> int result \<times> world"
  os_startfile :: "string \<Rightarrow> world \<Rightarrow> int result \<times> world"
  kindlegen :: string
  package_dir :: string
  platform_system :: string
  cwd :: string
  walk_rank :: "string \<Rightarrow> nat"
  read_open_archive :: "(string \<times> file_content) list \<Rightarrow> file_content"

definition render_file ::
  "externals \<Rightarrow> Ebook \<Rightarrow> string \<Rightarrow> render_context \<Rightarrow> string \<Rightarrow> world \<Rightarrow> world" where
  "render_file X e template_name ctx to_filename w =
     write_file (path_join (tmpdir e) to_filename) (Data (render X template_name ctx)) w"

definition author_or_default :: "Ebook \<Rightarrow> string" where
  "author_or_default e =
     (if truthy (author e) then the (author e) else ''jachinlin.github.io'')"

definition render_toc_ncx :: "externals \<Rightarrow> Ebook \<Rightarrow> world \<Rightarrow> string \<times> Ebook \<times> world" where
  "render_toc_ncx X e w =
     (let ncx = ''toc.ncx'';
          (hs, e') = headings e
      in (ncx, e',
          render_file X e' ''toc.xml''
            \<lparr>ctx_headings = hs, ctx_title = Some (Ebook.title e'),
             ctx_author = Some (author_or_default e')\<rparr> ncx w))"

definition render_toc_html :: "externals \<Rightarrow> Ebook \<Rightarrow> world \<Rightarrow> string \<times> Ebook \<times> world" where
  "render_toc_html X e w =
     (let toc = ''toc.html'';
          (hs, e') = headings e
      in (toc, e',
          render_file X e' toc
            \<lparr>ctx_headings = hs, ctx_title = None, ctx_author = None\<rparr> toc w))"

definition render_opf :: "externals \<Rightarrow> Ebook \<Rightarrow> world \<Rightarrow> string \<times> Ebook \<times> world" where
  "render_opf X e w =
     (let opf_file = format_file_name (Ebook.title e) @ ''.opf'';
          (hs, e') = headings e
      in (opf_file, e',
          render_file X e' ''opf.xml''
            \<lparr>ctx_headings = hs, ctx_title = Some (Ebook.title e'),
             ctx_author = Some (author_or_default e')\<rparr> opf_file w))"

definition default_cover :: "externals \<Rightarrow> string" where
  "default_cover X = path_join (package_dir X) ''templates/cover.jpg''"

definition save_cover :: "externals \<Rightarrow> Ebook \<Rightarrow> world \<Rightarrow> unit result \<times> world" where
  "save_cover X e w =
     (if truthy (cover_path e) then shutil_copy_into (the (cover_path e)) (tmpdir e) w
      else if truthy (cover_content e) then (Inl NotImplementedError, w)
      else shutil_copy_into (default_cover X) (tmpdir e) w)"

text \<open>
  \<^verbatim>\<open>Chapter.save\<close>, for a chapter of the book \<open>e\<close>. Opening the destination creates
  the file before \<^verbatim>\<open>f.write\<close> rejects a content that is not a string.
\<close>

fun copy_static_files :: "string list \<Rightarrow> string \<Rightarrow> world \<Rightarrow> unit result \<times> world" where
  "copy_static_files [] d w = (Inr (), w)"
| "copy_static_files (f # fs) d w =
     (case shutil_copy_into f d w of
        (Inl err, w') \<Rightarrow> (Inl err, w')
      | (Inr _, w') \<Rightarrow> copy_static_files fs d w')"

definition Chapter_save ::
  "externals \<Rightarrow> Ebook \<Rightarrow> Chapter \<Rightarrow> world \<Rightarrow> unit result \<times> Chapter \<times> world" where
  "Chapter_save X e self w =
     (case (if auto_download_img e then
              (case content self of
                 None \<Rightarrow> (Inl TypeError, w)
               | Some s \<Rightarrow>
                   (case download_image X s (tmpdir e) w of
                      (Inl err, w') \<Rightarrow> (Inl err, w')
                    | (Inr s', w') \<Rightarrow> (Inr (Some s'), w')))
            else (Inr (content self), w)) of
        (Inl err, w1) \<Rightarrow> (Inl err, self, w1)
      | (Inr cnt, w1) \<Rightarrow>
          (let self' = Chapter (Chapter.title self) (level self) cnt
                         (static_files self) (sub_chapters self);
               dest_file_path = path_join (tmpdir e) (Chapter_dest_file_path self')
           in case cnt of
                None \<Rightarrow> (Inl TypeError, self', write_file dest_file_path (Data []) w1)
              | Some s \<Rightarrow>
                  (case copy_static_files (static_files self') (tmpdir e)
                          (write_file dest_file_path (Data s) w1) of
                     (r, w2) \<Rightarrow> (r, self', w2))))"

text \<open>\<^verbatim>\<open>_save_chapters\<close>: the inner loop over the sub-chapters, then the outer loop.\<close>

fun save_sub_chapters ::
  "externals \<Rightarrow> Ebook \<Rightarrow> Chapter list \<Rightarrow> world \<Rightarrow> unit result \<times> Chapter list \<times> world" where
  "save_sub_chapters X e [] w = (Inr (), [], w)"
| "save_sub_chapters X e (sc # scs) w =
     (case Chapter_save X e sc w of
        (Inl err, sc', w') \<Rightarrow> (Inl err, sc' # scs, w')
      | (Inr _, sc', w') \<Rightarrow>
          (case save_sub_chapters X e scs w' of
             (r, scs', w'') \<Rightarrow> (r, sc' # scs', w'')))"

definition with_sub_chapters :: "Chapter \<Rightarrow> Chapter list \<Rightarrow> Chapter" where
  "with_sub_chapters c scs =
     Chapter (Chapter.title c) (level c) (content c) (static_files c) scs"

fun save_chapter_list ::
  "externals \<Rightarrow> Ebook \<Rightarrow> Chapter list \<Rightarrow> world \<Rightarrow> unit result \<times> Chapter list \<times> world" where
  "save_chapter_list X e [] w = (Inr (), [], w)"
| "save_chapter_list X e (c # cs) w =
     (case Chapter_save X e c w of
        (Inl err, c', w1) \<Rightarrow> (Inl err, c' # cs, w1)
      | (Inr _, c', w1) \<Rightarrow>
          (case save_sub_chapters X e (sub_chapters c') w1 of
             (Inl err, scs', w2) \<Rightarrow> (Inl err, with_sub_chapters c' scs' # cs, w2)
           | (Inr _, scs', w2) \<Rightarrow>
               (case save_chapter_list X e cs w2 of
                  (r, cs', w3) \<Rightarrow> (r, with_sub_chapters c' scs' # cs', w3))))"

definition save_chapters :: "externals \<Rightarrow> Ebook \<Rightarrow> world \<Rightarrow> unit result \<times> Ebook \<times> world" where
  "save_chapters X e w =
     (case save_chapter_list X e (chapter_list e) w of
        (r, cs', w') \<Rightarrow> (r, e\<lparr>chapter_list := cs'\<rparr>, w'))"

definition generate_all_files ::
  "externals \<Rightarrow> Ebook \<Rightarrow> world \<Rightarrow> string result \<times> Ebook \<times> world" where
  "generate_all_files X e w =
     (let (ncx, e1, w1) = render_toc_ncx X e w;
          (toc, e2, w2) = render_toc_html X e1 w1;
          (opf_file, e3, w3) = render_opf X e2 w2
      in case save_cover X e3 w3 of
           (Inl err, w4) \<Rightarrow> (Inl err, e3, w4)
         | (Inr _, w4) \<Rightarrow>
             (case save_chapters X e3 w4 of
                (Inl err, e5, w5) \<Rightarrow> (Inl err, e5, w5)
              | (Inr _, e5, w5) \<Rightarrow> (Inr opf_file, e5, w5)))"

text \<open>\<^verbatim>\<open>_create_mobi\<close>: the exit status \<open>rc\<close> of the converter is not looked at.\<close>

definition create_mobi :: "externals \<Rightarrow> Ebook \<Rightarrow> world \<Rightarrow> unit result \<times> Ebook \<times> world" where
  "create_mobi X e w =
     (case generate_all_files X e w of
        (Inl err, e', w') \<Rightarrow> (Inl err, e', w')
      | (Inr opf_file, e', w') \<Rightarrow>
          (case subprocess_call X
                  [kindlegen X, ''-dont_append_source'', path_join (tmpdir e') opf_file] w' of
             (Inl err, w'') \<Rightarrow> (Inl err, e', w'')
           | (Inr rc, w'') \<Rightarrow>
               (if rc \<noteq> 0 then (Inr (), e', w'') else (Inr (), e', w''))))"

text \<open>
  \<^verbatim>\<open>_create_epub\<close>: \<^verbatim>\<open>ZipFile(dest, 'w', ZIP_DEFLATED)\<close> creates the archive in the
  working directory, the loop writes every walked file to it under \<open>zip_arcname\<close> of
  its path, and \<^verbatim>\<open>close\<close> completes it. \<^verbatim>\<open>zipf.write\<close> reads the file when its
  turn comes: the files of the staging directory are as staged, and the archive itself,
  when the walk meets it, is as far as it has been written.
\<close>

fun zip_write_files ::
  "externals \<Rightarrow> string \<Rightarrow> (string \<times> file_content) list \<Rightarrow> (string \<times> file_content) list
     \<Rightarrow> (string \<times> file_content) list" where
  "zip_write_files X dest entries [] = entries"
| "zip_write_files X dest entries ((p, c) # fs) =
     zip_write_files X dest
       (entries @ [(zip_arcname p, if p = dest then read_open_archive X entries else c)]) fs"

definition archive_path :: "externals \<Rightarrow> Ebook \<Rightarrow> string" where
  "archive_path X e = abspath (cwd X) (Ebook_dest_file_path e)"

definition create_epub :: "externals \<Rightarrow> Ebook \<Rightarrow> world \<Rightarrow> unit result \<times> Ebook \<times> world" where
  "create_epub X e w =
     (case generate_all_files X e w of
        (Inl err, e', w') \<Rightarrow> (Inl err, e', w')
      | (Inr opf_file, e', w') \<Rightarrow>
          (let dest = archive_path X e';
               w1 = write_file dest (ZipFile ZIP_DEFLATED []) w';
               entries = zip_write_files X dest [] (os_walk_files (walk_rank X) (tmpdir e') w1)
           in (Inr (), e', write_file dest (ZipFile ZIP_DEFLATED entries) w1)))"

text \<open>
  \<^verbatim>\<open>EbookUtil.create\<close> looks the method \<^verbatim>\<open>_create_<format>\<close> up by name; the class
  has the two above.
\<close>

definition create :: "externals \<Rightarrow> Ebook \<Rightarrow> world \<Rightarrow> unit result \<times> Ebook \<times> world" where
  "create X e w =
     (if format e = ''mobi'' then create_mobi X e w
      else if format e = ''epub'' then create_epub X e w
      else (Inl AttributeError, e, w))"

subsection \<open>\<^verbatim>\<open>Ebook._create\<close>, \<^verbatim>\<open>save\<close> and \<^verbatim>\<open>show\<close>\<close>

definition Ebook_create :: "externals \<Rightarrow> Ebook \<Rightarrow> world \<Rightarrow> unit result \<times> Ebook \<times> world" where
  "Ebook_create X self w =
     (if chapter_list self = [] then (Inl ValueError, self, w)
      else create X self w)"

text \<open>
  \<^verbatim>\<open>save(file_path=None)\<close>. A \<^verbatim>\<open>str\<close> never equals the \<^verbatim>\<open>Path\<close> it is compared
  with, so only the default destination can coincide with the source. The destination of
  the copy is read as the name of a file, and the library's own paths are resolved
  against the working directory.
\<close>

definition Ebook_save ::
  "externals \<Rightarrow> Ebook \<Rightarrow> string option \<Rightarrow> world \<Rightarrow> unit result \<times> Ebook \<times> world" where
  "Ebook_save X self file_path w =
     (case Ebook_create X self w of
        (Inl err, self', w') \<Rightarrow> (Inl err, self', w')
      | (Inr _, self', w') \<Rightarrow>
          (let src_file_path =
                 (if format self' = ''mobi'' then Ebook_full_dest_file_path self'
                  else Ebook_dest_file_path self')
           in if truthy file_path then
                (case shutil_copy_file (abspath (cwd X) src_file_path) (the file_path) w' of
                   (r, w'') \<Rightarrow> (r, self', w''))
              else if Ebook_dest_file_path self' = src_file_path then (Inr (), self', w')
              else
                (case shutil_copy_file (abspath (cwd X) src_file_path)
                        (abspath (cwd X) (Ebook_dest_file_path self')) w' of
                   (r, w'') \<Rightarrow> (r, self', w''))))"

definition Ebook_show :: "externals \<Rightarrow> Ebook \<Rightarrow> world \<Rightarrow> int result \<times> Ebook \<times> world" where
  "Ebook_show X self w =
     (case Ebook_create X self w of
        (Inl err, self', w') \<Rightarrow> (Inl err, self', w')
      | (Inr _, self', w') \<Rightarrow>
          (let system = platform_system X
           in case (if system = ''Linux''
                    then subprocess_call X [''xdg-open'', Ebook_full_dest_file_path self'] w'
                    else if system = ''Darwin''
                    then subprocess_call X [''open'', Ebook_full_dest_file_path self'] w'
                    else os_startfile X (Ebook_full_dest_file_path self') w') of
                (r, w'') \<Rightarrow> (r, self', w'')))"

subsection \<open>The specification's notions\<close>

text \<open>
  The nodes of a chapter tree in pre-order: every top-level chapter, followed by its
  sub-chapters in list order.
\<close>

definition preorder :: "Chapter list \<Rightarrow> Chapter list" where
  "preorder cs = concat (map (\<lambda>c. c # sub_chapters c) cs)"

text \<open>
  The entries (title, play order, file name) of a heading index, read in the same order:
  every heading, followed by its sub-headings.
\<close>

definition sub_heading_entry :: "sub_heading \<Rightarrow> string \<times> int \<times> string" where
  "sub_heading_entry s = (sh_title s, sh_play_order s, sh_file_name s)"

definition heading_entries :: "heading list \<Rightarrow> (string \<times> int \<times> string) list" where
  "heading_entries hs =
     concat (map (\<lambda>h. (h_title h, h_play_order h, h_file_name h)
                        # map sub_heading_entry (sub_headings h)) hs)"

definition play_order :: "string \<times> int \<times> string \<Rightarrow> int" where
  "play_order entry = fst (snd entry)"

definition title_and_file :: "string \<times> int \<times> string \<Rightarrow> string \<times> string" where
  "title_and_file entry = (fst entry, snd (snd entry))"

definition chapter_title_and_file :: "Chapter \<Rightarrow> string \<times> string" where
  "chapter_title_and_file c =
     (Chapter.title c, format_file_name (Chapter.title c) @ ''.html'')"

text \<open>
  The path of a file relative to a directory \<open>d\<close> it lies below, the relative paths
  of the files below \<open>d\<close> as the walk reports them, and the entries of the archive
  stored at a path.
\<close>

definition relative_to :: "string \<Rightarrow> string \<Rightarrow> string" where
  "relative_to d p = drop (length d + 1) p"

definition relative_names :: "externals \<Rightarrow> string \<Rightarrow> world \<Rightarrow> string list" where
  "relative_names X d w = map (relative_to d \<circ> fst) (os_walk_files (walk_rank X) d w)"

definition zip_entries :: "world \<Rightarrow> string \<Rightarrow> (string \<times> file_content) list" where
  "zip_entries w p =
     (case map_of (files w) p of
        Some (ZipFile m entries) \<Rightarrow> entries
      | _ \<Rightarrow> [])"

text \<open>
  An entry stores a file in an archive at \<open>dest\<close>: its name is \<open>zip_arcname\<close> of the
  file's path, and its content is the file's, unless the file is the archive itself.
\<close>

definition stores :: "string \<Rightarrow> string \<times> file_content \<Rightarrow> string \<times> file_content \<Rightarrow> bool" where
  "stores dest entry f \<longleftrightarrow>
     fst entry = zip_arcname (fst f) \<and> (fst f = dest \<or> snd entry = snd f)"

subsection \<open>Auxiliary notions\<close>

text \<open>Two files with the same path and, unless it is \<open>dest\<close>, the same content.\<close>

definition agree :: "string \<Rightarrow> string \<times> file_content \<Rightarrow> string \<times> file_content \<Rightarrow> bool" where
  "agree dest f g \<longleftrightarrow> fst f = fst g \<and> (fst f = dest \<or> snd f = snd g)"

text \<open>
  \<open>numbered k cs\<close> gives the chapters \<open>cs\<close> the consecutive numbers from \<open>k\<close> on.
\<close>

fun numbered :: "int \<Rightarrow> Chapter list \<Rightarrow> (string \<times> int \<times> string) list" where
  "numbered k [] = []"
| "numbered k (c # cs) =
     (Chapter.title c, k, format_file_name (Chapter.title c) @ ''.html'')
       # numbered (k + 1) cs"

text \<open>Two books that differ at most in their chapters and in the cached headings.\<close>

definition same_book :: "Ebook \<Rightarrow> Ebook \<Rightarrow> bool" where
  "same_book e e' \<longleftrightarrow>
     Ebook.title e' = Ebook.title e \<and> author e' = author e \<and> format e' = format e \<and>
     auto_download_img e' = auto_download_img e \<and> cover_path e' = cover_path e \<and>
     cover_content e' = cover_content e \<and> tmpdir e' = tmpdir e"

text \<open>The first three steps of \<open>generate_all_files\<close>: the control documents.\<close>

definition rendered :: "externals \<Rightarrow> Ebook \<Rightarrow> world \<Rightarrow> string \<times> Ebook \<times> world" where
  "rendered X e w =
     (let (ncx, e1, w1) = render_toc_ncx X e w;
          (toc, e2, w2) = render_toc_html X e1 w1
      in render_opf X e2 w2)"

subsection \<open>A book to run the code on\<close>

text \<open>
  The template engine returns the template's name as the document, images are left as
  they are, and the converter and the viewer exit with status 1 and 0 without writing a
  file. The working directory is \<^verbatim>\<open>/home/u\<close>, a listing reports shorter paths first,
  and a read of the open archive finds nothing. The package's default cover is the only
  file at the start.
\<close>

definition example_externals :: externals where
  "example_externals =
     \<lparr>render = (\<lambda>template_name ctx. template_name),
      download_image = (\<lambda>s d w. (Inr s, w)),
      subprocess_call = (\<lambda>argv w. (Inr 1, w)),
      os_startfile = (\<lambda>p w. (Inr 0, w)),
      kindlegen = ''kindlegen'',
      package_dir = ''/pkg'',
      platform_system = ''Linux'',
      cwd = ''/home/u'',
      walk_rank = length,
      read_open_archive = (\<lambda>entries. Data [])\<rparr>"

definition example_world :: world where
  "example_world = \<lparr>files = [(''/pkg/templates/cover.jpg'', Data ''JPG'')]\<rparr>"

definition empty_book :: Ebook where
  "empty_book = Ebook_init ''T'' None ''epub'' False ''/tmp/1.5''"

definition example_book :: "string \<Rightarrow> Ebook" where
  "example_book fmt =
     (Ebook_init ''T'' None fmt False ''/tmp/1.5'')
       \<lparr>chapter_list := [Chapter ''C1'' (PInt 1) (Some ''<p>hi</p>'') [] []]\<rparr>"

definition example_headings :: "heading list" where
  "example_headings =
     [\<lparr>h_title = ''C1'', h_play_order = 2, h_file_name = ''C1.html'', sub_headings = []\<rparr>]"

definition example_staged_files :: "(string \<times> file_content) list" where
  "example_staged_files =
     [(''/pkg/templates/cover.jpg'', Data ''JPG''),
      (''/tmp/1.5/toc.ncx'', Data ''toc.xml''),
      (''/tmp/1.5/toc.html'', Data ''toc.html''),
      (''/tmp/1.5/T.opf'', Data ''opf.xml''),
      (''/tmp/1.5/cover.jpg'', Data ''JPG''),
      (''/tmp/1.5/C1.html'', Data ''<p>hi</p>'')]"

definition example_archive :: file_content where
  "example_archive =
     ZipFile ZIP_DEFLATED
       [(''tmp/1.5/T.opf'', Data ''opf.xml''),
        (''tmp/1.5/toc.ncx'', Data ''toc.xml''),
        (''tmp/1.5/C1.html'', Data ''<p>hi</p>''),
        (''tmp/1.5/toc.html'', Data ''toc.html''),
        (''tmp/1.5/cover.jpg'', Data ''JPG'')]"

definition example_tree :: "Chapter list" where
  "example_tree =
     [Chapter ''A'' (PInt 1) None []
        [Chapter ''A1'' (PInt 2) None [] [], Chapter ''A 2'' (PInt 2) None [] []],
      Chapter ''B.'' (PInt 1) None [] [],
      Chapter ''C'' (PInt 1) None [] [Chapter ''C1'' (PInt 2) None [] []]]"

definition tree_book :: Ebook where
  "tree_book = empty_book\<lparr>chapter_list := example_tree\<rparr>"

section \<open>Properties\<close>

subsection \<open>Properties of \<^verbatim>\<open>format_file_name\<close>\<close>

lemma re_sub_class_empty_filter:
  "re_sub_class P [] s = filter (\<lambda>c. \<not> P c) s"
proof (induction P "[] :: string" s rule: re_sub_class.induct)
  case (1 P)
  show ?case by simp
next
  case (2 P c cs)
  show ?case
  proof (cases "P c")
    case True
    have "filter (\<lambda>c. \<not> P c) (dropWhile P cs) = filter (\<lambda>c. \<not> P c) cs"
      by (induction cs) auto
    with True 2 show ?thesis by simp
  next
    case False
    with 2 show ?thesis by simp
  qed
qed

lemma format_file_name_filter:
  "format_file_name s = filter (\<lambda>c. \<not> illegal c) s"
  by (simp add: format_file_name_def re_sub_class_empty_filter)

lemma format_file_name_legal: "c \<in> set (format_file_name s) \<Longrightarrow> \<not> illegal c"
  by (simp add: format_file_name_filter)

lemma format_file_name_append:
  "format_file_name (s @ t) = format_file_name s @ format_file_name t"
  by (simp add: format_file_name_filter)

text \<open>
  C9. Sanitising is idempotent: \<open>format_file_name\<close> applied to its own result
  returns that result unchanged, for every string.
\<close>

theorem format_file_name_idempotent:
  "format_file_name (format_file_name s) = format_file_name s"
  by (simp add: format_file_name_filter)

text \<open>
  A sanitised name with an extension has no separator and is not \<^verbatim>\<open>.\<close>, so
  \<^verbatim>\<open>pathlib\<close> leaves it as it is: the file name of a chapter, and the destination of a
  book whose format has no separator.
\<close>

lemma split_sep_no_separator: "CHR ''/'' \<notin> set s \<Longrightarrow> split_sep s = [s]"
  by (induction s) auto

lemma pathlib_str_file_name:
  assumes "CHR ''/'' \<notin> set s" and "s \<noteq> []" and "s \<noteq> ''.''"
  shows "pathlib_str s = s"
proof -
  from assms(1,2) have "\<not> prefix ''/'' s"
    by (cases s) auto
  with assms show ?thesis
    by (simp add: pathlib_str_def split_sep_no_separator)
qed

lemma format_file_name_no_separator: "CHR ''/'' \<notin> set (format_file_name s)"
  by (auto simp: format_file_name_filter illegal_def illegal_characters_def)

lemma sanitised_with_extension:
  assumes "CHR ''/'' \<notin> set ext" and "ext \<noteq> []"
  shows "pathlib_str (format_file_name s @ ''.'' @ ext) = format_file_name s @ ''.'' @ ext"
proof (rule pathlib_str_file_name)
  show "CHR ''/'' \<notin> set (format_file_name s @ ''.'' @ ext)"
    using assms(1) format_file_name_no_separator [of s] by simp
  show "format_file_name s @ ''.'' @ ext \<noteq> []"
    by simp
  show "format_file_name s @ ''.'' @ ext \<noteq> ''.''"
    using assms(2) by (cases "format_file_name s") auto
qed

lemma Chapter_dest_file_path_pathlib:
  "pathlib_str (Chapter_dest_file_path c) = Chapter_dest_file_path c"
  unfolding Chapter_dest_file_path_def
  using sanitised_with_extension [of "''html''" "Chapter.title c"] by simp

lemma Ebook_dest_file_path_plain:
  "CHR ''/'' \<notin> set (format e) \<Longrightarrow> format e \<noteq> [] \<Longrightarrow>
     Ebook_dest_file_path e = format_file_name (Ebook.title e) @ ''.'' @ format e"
  unfolding Ebook_dest_file_path_def by (rule sanitised_with_extension)

subsection \<open>The heading index\<close>

lemma numbered_append:
  "numbered k (xs @ ys) = numbered k xs @ numbered (k + int (length xs)) ys"
  by (induction xs arbitrary: k) (auto simp: algebra_simps)

lemma numbered_play_order:
  "map play_order (numbered k cs) = [k .. k + int (length cs) - 1]"
proof (induction cs arbitrary: k)
  case Nil
  show ?case by simp
next
  case (Cons c cs)
  have "[k .. k + int (length (c # cs)) - 1] = k # [k + 1 .. k + 1 + int (length cs) - 1]"
    by (subst upto_rec1) (simp_all add: algebra_simps)
  with Cons.IH [of "k + 1"] show ?case
    by (simp add: play_order_def)
qed

lemma numbered_names:
  "map title_and_file (numbered k cs) = map chapter_title_and_file cs"
  by (induction cs arbitrary: k)
     (auto simp: title_and_file_def chapter_title_and_file_def)

lemma sub_headings_loop_numbered:
  "sub_headings_loop k scs shs = (k', shs') \<Longrightarrow>
     k' = k + int (length scs) \<and> length shs' = length shs + length scs \<and>
     map sub_heading_entry shs' = map sub_heading_entry shs @ numbered (k + 1) scs"
proof (induction scs arbitrary: k shs)
  case Nil
  then show ?case by simp
next
  case (Cons sc scs)
  let ?sh = "\<lparr>sh_title = Chapter.title sc, sh_play_order = k + 1,
             sh_file_name = Chapter_dest_file_path sc\<rparr>"
  from Cons.prems have "sub_headings_loop (k + 1) scs (shs @ [?sh]) = (k', shs')"
    by (simp add: Let_def)
  from Cons.IH [OF this] show ?case
    by (simp add: sub_heading_entry_def Chapter_dest_file_path_def)
qed

lemma headings_loop_numbered:
  "heading_entries (headings_loop k cs hs) =
     heading_entries hs @ numbered (k + 1) (preorder cs)"
proof (induction cs arbitrary: k hs)
  case Nil
  show ?case by (simp add: preorder_def)
next
  case (Cons c cs)
  obtain k' shs where loop: "sub_headings_loop (k + 1) (sub_chapters c) [] = (k', shs)"
    by (cases "sub_headings_loop (k + 1) (sub_chapters c) []")
  from sub_headings_loop_numbered [OF loop]
  have k': "k' = k + 1 + int (length (sub_chapters c))"
    and shs: "map sub_heading_entry shs = numbered (k + 2) (sub_chapters c)"
    by (simp_all add: add.commute)
  have pre: "preorder (c # cs) = c # sub_chapters c @ preorder cs"
    by (simp add: preorder_def)
  let ?h = "\<lparr>h_title = Chapter.title c, h_play_order = k + 1,
            h_file_name = Chapter_dest_file_path c, sub_headings = shs\<rparr>"
  have step: "headings_loop k (c # cs) hs = headings_loop k' cs (hs @ [?h])"
    by (simp add: loop Let_def)
  have last: "heading_entries (hs @ [?h]) =
      heading_entries hs @
      (Chapter.title c, k + 1, format_file_name (Chapter.title c) @ ''.html'')
        # numbered (k + 2) (sub_chapters c)"
    by (simp add: heading_entries_def shs Chapter_dest_file_path_def)
  have next_k: "k' + 1 = k + 2 + int (length (sub_chapters c))"
    by (simp add: k')
  have "heading_entries (headings_loop k (c # cs) hs) =
      heading_entries (hs @ [?h]) @ numbered (k' + 1) (preorder cs)"
    unfolding step by (rule Cons.IH)
  also have "\<dots> = heading_entries hs @ numbered (k + 1) (preorder (c # cs))"
    unfolding last pre next_k by (simp add: numbered_append add_ac)
  finally show ?case .
qed

lemma headings_loop_structure:
  "map (\<lambda>h. length (sub_headings h)) (headings_loop k cs hs) =
     map (\<lambda>h. length (sub_headings h)) hs @ map (\<lambda>c. length (sub_chapters c)) cs"
proof (induction cs arbitrary: k hs)
  case Nil
  show ?case by simp
next
  case (Cons c cs)
  obtain k' shs where loop: "sub_headings_loop (k + 1) (sub_chapters c) [] = (k', shs)"
    by (cases "sub_headings_loop (k + 1) (sub_chapters c) []")
  from sub_headings_loop_numbered [OF loop] have "length shs = length (sub_chapters c)"
    by simp
  then show ?case
    by (simp add: loop Cons.IH)
qed

text \<open>
  C1. When no headings are cached yet, the heading index of a book numbers the nodes of
  its chapter tree in pre-order: read heading by heading, each followed by its
  sub-headings, the play orders are the consecutive integers from 2 on, the titles and
  file names are those of the chapters in pre-order (the file name being the sanitised
  title with \<^verbatim>\<open>.html\<close>), and every heading has one sub-heading per sub-chapter of its
  chapter.
\<close>

theorem headings_preorder_numbering:
  assumes "headings_cache e \<in> {None, Some []}"
  shows "map play_order (heading_entries (fst (headings e))) =
           [2 .. int (length (preorder (chapter_list e))) + 1] \<and>
         map title_and_file (heading_entries (fst (headings e))) =
           map chapter_title_and_file (preorder (chapter_list e)) \<and>
         map (length \<circ> sub_headings) (fst (headings e)) =
           map (length \<circ> sub_chapters) (chapter_list e)"
proof -
  from assms have hs: "fst (headings e) = headings_loop 1 (chapter_list e) []"
    by (auto simp: headings_def Let_def)
  have "heading_entries [] = []"
    by (simp add: heading_entries_def)
  then have "heading_entries (fst (headings e)) = numbered 2 (preorder (chapter_list e))"
    by (simp add: hs headings_loop_numbered)
  then show ?thesis
    by (simp add: numbered_play_order numbered_names hs headings_loop_structure
        comp_def algebra_simps)
qed

theorem headings_preorder_numbering_witness:
  "headings_cache tree_book \<in> {None, Some []} \<and>
   map play_order (heading_entries (fst (headings tree_book))) = [2, 3, 4, 5, 6, 7] \<and>
   map title_and_file (heading_entries (fst (headings tree_book))) =
     [(''A'', ''A.html''), (''A1'', ''A1.html''), (''A 2'', ''A2.html''),
      (''B.'', ''B.html''), (''C'', ''C.html''), (''C1'', ''C1.html'')] \<and>
   map (length \<circ> sub_headings) (fst (headings tree_book)) = [2, 0, 1]"
proof -
  have cache: "headings_cache tree_book \<in> {None, Some []}"
    by (simp add: tree_book_def empty_book_def Ebook_init_def)
  have nodes: "[2 .. int (length (preorder (chapter_list tree_book))) + 1] = [2, 3, 4, 5, 6, 7]"
    by code_simp
  have names: "map chapter_title_and_file (preorder (chapter_list tree_book)) =
     [(''A'', ''A.html''), (''A1'', ''A1.html''), (''A 2'', ''A2.html''),
      (''B.'', ''B.html''), (''C'', ''C.html''), (''C1'', ''C1.html'')]"
    by code_simp
  have subs: "map (length \<circ> sub_chapters) (chapter_list tree_book) = [2, 0, 1]"
    by code_simp
  from headings_preorder_numbering [OF cache] cache show ?thesis
    unfolding nodes names subs by simp
qed

subsection \<open>Sub-chapters\<close>

lemma create_subchapter_max_level:
  "level c = PInt 2 \<Longrightarrow>
     create_subchapter c t p =
       (Inl (Exception ''chapter level is great than the max level num: 2''), c)"
  by (simp add: create_subchapter_def max_level_def)

lemma Chapter_call_level_twice:
  "Chapter_call t [a, b] [(''level'', lv)] = Inl TypeError"
  by (simp add: Chapter_call_def bind_arguments_def Chapter_params_def)

lemma create_subchapter_top_level:
  "level c = PInt 1 \<Longrightarrow> create_subchapter c t p = (Inl TypeError, c)"
  by (simp add: create_subchapter_def max_level_def Chapter_call_level_twice)

text \<open>
  C3. \<^verbatim>\<open>create_subchapter\<close> on the top-level chapter \<^verbatim>\<open>A\<close> with the title \<^verbatim>\<open>B\<close>
  raises \<^verbatim>\<open>TypeError\<close> and leaves the chapter without sub-chapters: the constructor
  call passes \<^verbatim>\<open>chapter_file_path\<close> in the position of \<^verbatim>\<open>level\<close> and
  \<^verbatim>\<open>level\<close> again by keyword.
\<close>

theorem create_subchapter_top_level_raises:
  "create_subchapter (Chapter ''A'' (PInt 1) None [] []) ''B'' None =
     (Inl TypeError, Chapter ''A'' (PInt 1) None [] [])"
  by (simp add: create_subchapter_def max_level_def Chapter_call_def bind_arguments_def
      Chapter_params_def)

subsection \<open>Adding chapters and static files\<close>

text \<open>
  C4. \<^verbatim>\<open>add_chapter\<close> with a chapter whose level is not 1 raises \<^verbatim>\<open>ValueError\<close> and
  leaves the book as it is; with a chapter of level 1 it appends the chapter to the end
  of the chapter list and returns the book.
\<close>

theorem add_chapter_top_level_only:
  "(level c \<noteq> PInt 1 \<longrightarrow> add_chapter e c = (Inl ValueError, e)) \<and>
   (level c = PInt 1 \<longrightarrow>
      add_chapter e c = (Inr (e\<lparr>chapter_list := chapter_list e @ [c]\<rparr>),
                         e\<lparr>chapter_list := chapter_list e @ [c]\<rparr>))"
  by (simp add: add_chapter_def is_top_chapter_def Let_def)

theorem add_chapter_top_level_only_witness:
  "level (Chapter ''S'' (PInt 2) None [] []) \<noteq> PInt 1 \<and>
   add_chapter (example_book ''epub'') (Chapter ''S'' (PInt 2) None [] []) =
     (Inl ValueError, example_book ''epub'') \<and>
   level (Chapter ''C2'' (PInt 1) None [] []) = PInt 1 \<and>
   chapter_list
     (snd (add_chapter (example_book ''epub'') (Chapter ''C2'' (PInt 1) None [] []))) =
     [Chapter ''C1'' (PInt 1) (Some ''<p>hi</p>'') [] [], Chapter ''C2'' (PInt 1) None [] []]"
  using add_chapter_top_level_only [of "Chapter ''S'' (PInt 2) None [] []" "example_book ''epub''"]
    add_chapter_top_level_only [of "Chapter ''C2'' (PInt 1) None [] []" "example_book ''epub''"]
  by (simp add: example_book_def)

lemma assert_files_None: "(\<forall>f \<in> set fs. is_file w f) \<Longrightarrow> assert_files w fs = None"
  by (induction fs) auto

lemma assert_files_Some:
  "(\<exists>f \<in> set fs. \<not> is_file w f) \<Longrightarrow> assert_files w fs = Some AssertionError"
  by (induction fs) auto

text \<open>
  C10. \<^verbatim>\<open>add_static_files\<close> is all or nothing: when one of the paths is not an existing
  file the call raises \<^verbatim>\<open>AssertionError\<close> and the chapter is unchanged, no path having
  been recorded; when all are files, all are appended to the static files, in order.
\<close>

theorem add_static_files_atomic:
  "((\<exists>f \<in> set file_path. \<not> is_file w f) \<longrightarrow>
      add_static_files w c file_path = (Inl AssertionError, c)) \<and>
   ((\<forall>f \<in> set file_path. is_file w f) \<longrightarrow>
      add_static_files w c file_path =
        (Inr (Chapter (Chapter.title c) (level c) (content c)
                (static_files c @ file_path) (sub_chapters c)),
         Chapter (Chapter.title c) (level c) (content c)
           (static_files c @ file_path) (sub_chapters c)))"
  by (simp add: add_static_files_def assert_files_None assert_files_Some Let_def)

theorem add_static_files_atomic_witness:
  "is_file example_world ''/pkg/templates/cover.jpg'' \<and>
   \<not> is_file example_world ''/missing.css'' \<and>
   add_static_files example_world (Chapter ''C1'' (PInt 1) None [''a.css''] [])
     [''/pkg/templates/cover.jpg'', ''/missing.css''] =
     (Inl AssertionError, Chapter ''C1'' (PInt 1) None [''a.css''] []) \<and>
   snd (add_static_files example_world (Chapter ''C1'' (PInt 1) None [''a.css''] [])
     [''/pkg/templates/cover.jpg'']) =
     Chapter ''C1'' (PInt 1) None [''a.css'', ''/pkg/templates/cover.jpg''] []"
proof -
  have present: "is_file example_world ''/pkg/templates/cover.jpg''"
    by (simp add: is_file_def example_world_def)
  have missing: "\<not> is_file example_world ''/missing.css''"
    by (simp add: is_file_def example_world_def)
  from present missing
    add_static_files_atomic [of "[''/pkg/templates/cover.jpg'', ''/missing.css'']"
      example_world "Chapter ''C1'' (PInt 1) None [''a.css''] []"]
    add_static_files_atomic [of "[''/pkg/templates/cover.jpg'']"
      example_world "Chapter ''C1'' (PInt 1) None [''a.css''] []"]
  show ?thesis by simp
qed

subsection \<open>Building\<close>

text \<open>
  C5. With an empty chapter list, \<^verbatim>\<open>save\<close> and \<^verbatim>\<open>show\<close> raise \<^verbatim>\<open>ValueError\<close> and
  leave the book and the files as they were: nothing is staged or packaged. With a
  chapter in the list, \<^verbatim>\<open>_create\<close> is the build of \<^verbatim>\<open>EbookUtil.create\<close>.
\<close>

theorem build_needs_a_chapter:
  "(chapter_list e = [] \<longrightarrow>
      Ebook_save X e file_path w = (Inl ValueError, e, w) \<and>
      Ebook_show X e w = (Inl ValueError, e, w)) \<and>
   (chapter_list e \<noteq> [] \<longrightarrow> Ebook_create X e w = create X e w)"
  by (simp add: Ebook_save_def Ebook_show_def Ebook_create_def)

theorem build_needs_a_chapter_witness:
  "chapter_list empty_book = [] \<and>
   Ebook_save example_externals empty_book None example_world =
     (Inl ValueError, empty_book, example_world) \<and>
   Ebook_show example_externals empty_book example_world =
     (Inl ValueError, empty_book, example_world) \<and>
   chapter_list (example_book ''epub'') \<noteq> [] \<and>
   Ebook_create example_externals (example_book ''epub'') example_world =
     create example_externals (example_book ''epub'') example_world"
  using build_needs_a_chapter [of empty_book example_externals None example_world]
    build_needs_a_chapter [of "example_book ''epub''" example_externals None example_world]
  by (simp add: empty_book_def Ebook_init_def example_book_def)

lemma example_staging:
  "generate_all_files example_externals (example_book fmt) example_world =
     (Inr ''T.opf'', (example_book fmt)\<lparr>headings_cache := Some example_headings\<rparr>,
      \<lparr>files = example_staged_files\<rparr>)"
  by code_simp

text \<open>
  C6. For a book of format \<^verbatim>\<open>mobi\<close> with a chapter, when staging succeeds and the
  converter returns a non-zero exit status, the build returns normally, in the state the
  converter left.
\<close>

theorem mobi_converter_failure_swallowed:
  assumes "format e = ''mobi''" and "chapter_list e \<noteq> []"
    and "generate_all_files X e w = (Inr opf_file, e', w')"
    and "subprocess_call X
           [kindlegen X, ''-dont_append_source'', path_join (tmpdir e') opf_file] w' =
           (Inr rc, w'')"
    and "rc \<noteq> 0"
  shows "Ebook_create X e w = (Inr (), e', w'')"
  using assms by (simp add: Ebook_create_def create_def create_mobi_def)

theorem mobi_converter_failure_swallowed_witness:
  "format (example_book ''mobi'') = ''mobi'' \<and>
   chapter_list (example_book ''mobi'') \<noteq> [] \<and>
   generate_all_files example_externals (example_book ''mobi'') example_world =
     (Inr ''T.opf'', (example_book ''mobi'')\<lparr>headings_cache := Some example_headings\<rparr>,
      \<lparr>files = example_staged_files\<rparr>) \<and>
   subprocess_call example_externals
     [kindlegen example_externals, ''-dont_append_source'', ''/tmp/1.5/T.opf'']
     \<lparr>files = example_staged_files\<rparr> = (Inr 1, \<lparr>files = example_staged_files\<rparr>) \<and>
   (1 :: int) \<noteq> 0 \<and>
   Ebook_create example_externals (example_book ''mobi'') example_world =
     (Inr (), (example_book ''mobi'')\<lparr>headings_cache := Some example_headings\<rparr>,
      \<lparr>files = example_staged_files\<rparr>)"
proof -
  let ?e' = "(example_book ''mobi'')\<lparr>headings_cache := Some example_headings\<rparr>"
  let ?w' = "\<lparr>files = example_staged_files\<rparr>"
  have fmt: "format (example_book ''mobi'') = ''mobi''"
    and chapters: "chapter_list (example_book ''mobi'') \<noteq> []"
    by (simp_all add: example_book_def Ebook_init_def)
  have call: "subprocess_call example_externals
      [kindlegen example_externals, ''-dont_append_source'', path_join (tmpdir ?e') ''T.opf''] ?w'
      = (Inr 1, ?w')"
    by (simp add: example_externals_def)
  have path: "path_join (tmpdir ?e') ''T.opf'' = ''/tmp/1.5/T.opf''"
    by (simp add: path_join_def example_book_def Ebook_init_def)
  have "Ebook_create example_externals (example_book ''mobi'') example_world = (Inr (), ?e', ?w')"
    using fmt chapters example_staging call by (rule mobi_converter_failure_swallowed) simp
  with fmt chapters example_staging call show ?thesis
    unfolding path by simp
qed

subsection \<open>The cover\<close>

text \<open>
  C7. After a successful \<^verbatim>\<open>set_cover\<close> the book holds the cover supplied in that call
  and only that one: the path when a path was given, with the content cleared, and
  otherwise the content, with the path cleared. \<^verbatim>\<open>set_cover\<close> with neither a path nor
  a content raises \<^verbatim>\<open>ValueError\<close> and leaves the book as it is. A book with neither set
  is staged with the default cover of the package.
\<close>

theorem set_cover_last_write_wins:
  "(set_cover e path cnt = (Inr e', e'') \<longrightarrow>
      e'' = e' \<and>
      (if truthy path then cover_path e' = path \<and> cover_content e' = None
       else truthy cnt \<and> cover_content e' = cnt \<and> cover_path e' = None)) \<and>
   (\<not> truthy path \<and> \<not> truthy cnt \<longrightarrow> set_cover e path cnt = (Inl ValueError, e)) \<and>
   (\<not> truthy (cover_path e) \<and> \<not> truthy (cover_content e) \<longrightarrow>
      save_cover X e w = shutil_copy_into (default_cover X) (tmpdir e) w)"
  by (auto simp: set_cover_def save_cover_def Let_def split: if_splits)

theorem set_cover_last_write_wins_witness:
  "set_cover ((example_book ''epub'')\<lparr>cover_content := Some ''raw''\<rparr>) (Some ''/c.jpg'') None =
     (Inr ((example_book ''epub'')\<lparr>cover_path := Some ''/c.jpg''\<rparr>),
      (example_book ''epub'')\<lparr>cover_path := Some ''/c.jpg''\<rparr>) \<and>
   cover_path ((example_book ''epub'')\<lparr>cover_path := Some ''/c.jpg''\<rparr>) = Some ''/c.jpg'' \<and>
   cover_content ((example_book ''epub'')\<lparr>cover_path := Some ''/c.jpg''\<rparr>) = None \<and>
   \<not> truthy None \<and> \<not> truthy (Some []) \<and>
   set_cover (example_book ''epub'') None (Some []) = (Inl ValueError, example_book ''epub'') \<and>
   \<not> truthy (cover_path (example_book ''epub'')) \<and>
   \<not> truthy (cover_content (example_book ''epub'')) \<and>
   save_cover example_externals (example_book ''epub'') example_world =
     (Inr (),
      \<lparr>files = [(''/pkg/templates/cover.jpg'', Data ''JPG''),
                (''/tmp/1.5/cover.jpg'', Data ''JPG'')]\<rparr>)"
proof -
  let ?e = "(example_book ''epub'')\<lparr>cover_content := Some ''raw''\<rparr>"
  let ?e' = "(example_book ''epub'')\<lparr>cover_path := Some ''/c.jpg''\<rparr>"
  have call: "set_cover ?e (Some ''/c.jpg'') None = (Inr ?e', ?e')"
    by (simp add: set_cover_def example_book_def Ebook_init_def Let_def)
  have given: "truthy (Some ''/c.jpg'')" and neither: "\<not> truthy None \<and> \<not> truthy (Some [])"
    by simp_all
  have unset: "\<not> truthy (cover_path (example_book ''epub'')) \<and>
      \<not> truthy (cover_content (example_book ''epub''))"
    by (simp add: example_book_def Ebook_init_def)
  have copy: "shutil_copy_into (default_cover example_externals)
      (tmpdir (example_book ''epub'')) example_world =
     (Inr (),
      \<lparr>files = [(''/pkg/templates/cover.jpg'', Data ''JPG''),
                (''/tmp/1.5/cover.jpg'', Data ''JPG'')]\<rparr>)"
    by code_simp
  note first = set_cover_last_write_wins
    [of ?e "Some ''/c.jpg''" None ?e' ?e' example_externals example_world]
  note second = set_cover_last_write_wins
    [of "example_book ''epub''" None "Some []" ?e' ?e' example_externals example_world]
  from first [THEN conjunct1, THEN mp, OF call, THEN conjunct2]
  have kept: "cover_path ?e' = Some ''/c.jpg'' \<and> cover_content ?e' = None"
    unfolding if_P [OF given] .
  from second [THEN conjunct2, THEN conjunct1, THEN mp, OF neither]
  have raised: "set_cover (example_book ''epub'') None (Some []) =
      (Inl ValueError, example_book ''epub'')" .
  from second [THEN conjunct2, THEN conjunct2, THEN mp, OF unset]
  have default: "save_cover example_externals (example_book ''epub'') example_world =
     (Inr (),
      \<lparr>files = [(''/pkg/templates/cover.jpg'', Data ''JPG''),
                (''/tmp/1.5/cover.jpg'', Data ''JPG'')]\<rparr>)"
    unfolding copy .
  from call kept neither raised unset default show ?thesis
    by (intro conjI) (erule conjunct1 conjunct2 | assumption)+
qed

lemma headings_fields:
  "Ebook.title (snd (headings e)) = Ebook.title e"
  "author (snd (headings e)) = author e"
  "format (snd (headings e)) = format e"
  "auto_download_img (snd (headings e)) = auto_download_img e"
  "cover_path (snd (headings e)) = cover_path e"
  "cover_content (snd (headings e)) = cover_content e"
  "tmpdir (snd (headings e)) = tmpdir e"
  "chapter_list (snd (headings e)) = chapter_list e"
  by (simp_all add: headings_def Let_def split: option.splits list.splits)

lemma same_book_refl: "same_book e e"
  by (simp add: same_book_def)

lemma same_book_trans: "same_book a b \<Longrightarrow> same_book b c \<Longrightarrow> same_book a c"
  by (simp add: same_book_def)

lemma render_same_book:
  "same_book e (fst (snd (render_toc_ncx X e w)))"
  "same_book e (fst (snd (render_toc_html X e w)))"
  "same_book e (fst (snd (render_opf X e w)))"
  by (simp_all add: render_toc_ncx_def render_toc_html_def render_opf_def Let_def
      split_beta same_book_def headings_fields)

lemma save_chapters_same_book: "same_book e (fst (snd (save_chapters X e w)))"
  by (simp add: save_chapters_def same_book_def split: prod.splits)

lemma rendered_same_book: "same_book e (fst (snd (rendered X e w)))"
  unfolding rendered_def Let_def split_beta
  by (blast intro: same_book_trans render_same_book)

lemma generate_all_files_rendered:
  "generate_all_files X e w =
     (case rendered X e w of
        (opf_file, e3, w3) \<Rightarrow>
          (case save_cover X e3 w3 of
             (Inl err, w4) \<Rightarrow> (Inl err, e3, w4)
           | (Inr _, w4) \<Rightarrow>
               (case save_chapters X e3 w4 of
                  (Inl err, e5, w5) \<Rightarrow> (Inl err, e5, w5)
                | (Inr _, e5, w5) \<Rightarrow> (Inr opf_file, e5, w5))))"
  by (simp add: generate_all_files_def rendered_def Let_def split_beta)

lemma generate_all_files_same_book:
  "same_book e (fst (snd (generate_all_files X e w)))"
proof -
  obtain opf e3 w3 where r: "rendered X e w = (opf, e3, w3)"
    by (cases "rendered X e w")
  with rendered_same_book [of e X w] have e3: "same_book e e3" by simp
  obtain r4 w4 where c: "save_cover X e3 w3 = (r4, w4)"
    by (cases "save_cover X e3 w3")
  obtain r5 e5 w5 where s: "save_chapters X e3 w4 = (r5, e5, w5)"
    by (cases "save_chapters X e3 w4")
  with save_chapters_same_book [of e3 X w4] have "same_book e3 e5" by simp
  with e3 have "same_book e e5" by (rule same_book_trans)
  with e3 show ?thesis
    by (simp add: generate_all_files_rendered r c s split: sum.splits)
qed

text \<open>
  C8. For a book whose cover content is set and whose cover path is not, staging the
  cover raises \<^verbatim>\<open>NotImplementedError\<close> and writes no file, and so does the staging of
  all files.
\<close>

theorem raw_cover_not_implemented:
  assumes "\<not> truthy (cover_path e)" and "truthy (cover_content e)"
  shows "save_cover X e w = (Inl NotImplementedError, w) \<and>
         fst (generate_all_files X e w) = Inl NotImplementedError"
proof -
  have a: "save_cover X e' w' = (Inl NotImplementedError, w')" if "same_book e e'" for e' w'
    using assms that by (simp add: save_cover_def same_book_def)
  obtain opf e3 w3 where r: "rendered X e w = (opf, e3, w3)"
    by (cases "rendered X e w")
  with rendered_same_book [of e X w] have "same_book e e3" by simp
  then have "save_cover X e3 w3 = (Inl NotImplementedError, w3)" by (rule a)
  then have "fst (generate_all_files X e w) = Inl NotImplementedError"
    by (simp add: generate_all_files_rendered r)
  with a [OF same_book_refl] show ?thesis by simp
qed

theorem raw_cover_not_implemented_witness:
  "\<not> truthy (cover_path (snd (set_cover (example_book ''epub'') None (Some ''raw'')))) \<and>
   truthy (cover_content (snd (set_cover (example_book ''epub'') None (Some ''raw'')))) \<and>
   save_cover example_externals
     (snd (set_cover (example_book ''epub'') None (Some ''raw''))) example_world =
     (Inl NotImplementedError, example_world) \<and>
   fst (generate_all_files example_externals
     (snd (set_cover (example_book ''epub'') None (Some ''raw''))) example_world) =
     Inl NotImplementedError"
proof -
  let ?e = "snd (set_cover (example_book ''epub'') None (Some ''raw''))"
  have path: "\<not> truthy (cover_path ?e)" and cnt: "truthy (cover_content ?e)"
    by (simp_all add: set_cover_def example_book_def Ebook_init_def Let_def)
  from raw_cover_not_implemented [OF path cnt, of example_externals example_world] path cnt
  show ?thesis by simp
qed

subsection \<open>The EPUB archive\<close>

lemma map_of_write_file: "map_of (files (write_file p c w)) p = Some c"
  by (simp add: write_file_def update_conv')

lemma agree_update: "list_all2 (agree k) (AList.update k v al) (AList.update k v' al)"
  by (induction al) (auto simp: agree_def list_all2_refl)

lemma agree_filter:
  "list_all2 (agree k) xs ys \<Longrightarrow>
     list_all2 (agree k) (filter (\<lambda>(p, c). Q p) xs) (filter (\<lambda>(p, c). Q p) ys)"
  by (induction rule: list_all2_induct) (auto simp: agree_def)

lemma agree_path: "agree k f g \<Longrightarrow> fst f = fst g"
  by (simp add: agree_def)

lemma agree_insort:
  "list_all2 (agree k) xs ys \<Longrightarrow> agree k x y \<Longrightarrow>
     list_all2 (agree k) (insort_key (\<lambda>f. r (fst f)) x xs) (insort_key (\<lambda>f. r (fst f)) y ys)"
proof (induction rule: list_all2_induct)
  case Nil
  then show ?case by simp
next
  case (Cons x' xs y' ys)
  from Cons.hyps(1) Cons.prems have "fst x' = fst y'" and "fst x = fst y"
    by (auto dest: agree_path)
  with Cons show ?case by simp
qed

lemma agree_sort:
  "list_all2 (agree k) xs ys \<Longrightarrow>
     list_all2 (agree k) (sort_key (\<lambda>f. r (fst f)) xs) (sort_key (\<lambda>f. r (fst f)) ys)"
  by (induction rule: list_all2_induct) (auto simp: sort_key_def intro: agree_insort)

lemma agree_walk:
  "list_all2 (agree k) (os_walk_files r d (write_file k v w)) (os_walk_files r d (write_file k v' w))"
  by (simp add: os_walk_files_def write_file_def agree_sort agree_filter agree_update)

lemma zip_write_files_stores:
  "\<exists>new. zip_write_files X dest entries fs = entries @ new \<and> list_all2 (stores dest) new fs"
proof (induction fs arbitrary: entries)
  case Nil
  show ?case by simp
next
  case (Cons f fs)
  obtain p c where f: "f = (p, c)" by (cases f)
  let ?entry = "(zip_arcname p, if p = dest then read_open_archive X entries else c)"
  from Cons.IH [of "entries @ [?entry]"] obtain new
    where new: "zip_write_files X dest (entries @ [?entry]) fs = (entries @ [?entry]) @ new"
      and rel: "list_all2 (stores dest) new fs"
    by blast
  have "stores dest ?entry f"
    by (simp add: stores_def f)
  with new rel have "zip_write_files X dest entries (f # fs) = entries @ (?entry # new) \<and>
      list_all2 (stores dest) (?entry # new) (f # fs)"
    by (simp add: f)
  then show ?case by blast
qed

lemma stores_agree: "stores k entry f \<Longrightarrow> agree k f g \<Longrightarrow> stores k entry g"
  by (auto simp: stores_def agree_def)

lemma stores_walk:
  assumes "list_all2 (stores k) entries fs" and "list_all2 (agree k) fs gs"
  shows "list_all2 (stores k) entries gs"
  using assms by (rule list_all2_trans [rotated]) (rule stores_agree)

lemma example_epub_build:
  "create example_externals (example_book ''epub'') example_world =
     (Inr (), (example_book ''epub'')\<lparr>headings_cache := Some example_headings\<rparr>,
      \<lparr>files = example_staged_files @ [(''/home/u/T.epub'', example_archive)]\<rparr>)"
  by code_simp

text \<open>
  C2, as the code has it. When the build of a book of format \<^verbatim>\<open>epub\<close> succeeds, the
  archive's file, the sanitised title with \<^verbatim>\<open>.epub\<close> in the working directory, is an
  archive written with deflate compression. Its entries are, one for one and in the
  order of the walk, the files below the staging directory: each entry is named by the
  file's whole path, normalised and without the leading separators, and holds the
  file's content, unless the file is the archive itself.
\<close>

theorem epub_archive_entries:
  assumes "format e = ''epub''"
    and "create X e w = (Inr u, e', w')"
  shows "map_of (files w') (archive_path X e') =
           Some (ZipFile ZIP_DEFLATED (zip_entries w' (archive_path X e'))) \<and>
         list_all2 (stores (archive_path X e'))
           (zip_entries w' (archive_path X e'))
           (os_walk_files (walk_rank X) (tmpdir e') w')"
proof -
  from assms have ce: "create_epub X e w = (Inr u, e', w')"
    by (simp add: create_def)
  obtain r e1 w1 where g: "generate_all_files X e w = (r, e1, w1)"
    by (cases "generate_all_files X e w")
  let ?dest = "archive_path X e1"
  let ?w2 = "write_file ?dest (ZipFile ZIP_DEFLATED []) w1"
  let ?fs = "os_walk_files (walk_rank X) (tmpdir e1) ?w2"
  let ?entries = "zip_write_files X ?dest [] ?fs"
  from ce g have e': "e' = e1"
    and w': "w' = write_file ?dest (ZipFile ZIP_DEFLATED ?entries) ?w2"
    by (auto simp: create_epub_def Let_def split: sum.splits)
  have w'': "w' = write_file ?dest (ZipFile ZIP_DEFLATED ?entries) w1"
    unfolding w' by (simp add: write_file_def)
  have archive: "map_of (files w') ?dest = Some (ZipFile ZIP_DEFLATED ?entries)"
    unfolding w' by (rule map_of_write_file)
  then have entries: "zip_entries w' ?dest = ?entries"
    by (simp add: zip_entries_def)
  from zip_write_files_stores [of X ?dest "[]" ?fs]
  have "list_all2 (stores ?dest) ?entries ?fs"
    by simp
  moreover have "list_all2 (agree ?dest) ?fs (os_walk_files (walk_rank X) (tmpdir e1) w')"
    unfolding w'' by (rule agree_walk)
  ultimately have "list_all2 (stores ?dest) ?entries (os_walk_files (walk_rank X) (tmpdir e1) w')"
    by (rule stores_walk)
  with archive show ?thesis
    by (simp add: e' entries)
qed

theorem epub_archive_entries_witness:
  "format (example_book ''epub'') = ''epub'' \<and>
   create example_externals (example_book ''epub'') example_world =
     (Inr (), (example_book ''epub'')\<lparr>headings_cache := Some example_headings\<rparr>,
      \<lparr>files = example_staged_files @ [(''/home/u/T.epub'', example_archive)]\<rparr>) \<and>
   map_of (example_staged_files @ [(''/home/u/T.epub'', example_archive)]) ''/home/u/T.epub'' =
     Some example_archive \<and>
   list_all2 (stores ''/home/u/T.epub'')
     (zip_entries \<lparr>files = example_staged_files @ [(''/home/u/T.epub'', example_archive)]\<rparr>
        ''/home/u/T.epub'')
     (os_walk_files length ''/tmp/1.5''
        \<lparr>files = example_staged_files @ [(''/home/u/T.epub'', example_archive)]\<rparr>)"
proof -
  let ?e' = "(example_book ''epub'')\<lparr>headings_cache := Some example_headings\<rparr>"
  let ?w' = "\<lparr>files = example_staged_files @ [(''/home/u/T.epub'', example_archive)]\<rparr>"
  have fmt: "format (example_book ''epub'') = ''epub''"
    by (simp add: example_book_def Ebook_init_def)
  have dest: "archive_path example_externals ?e' = ''/home/u/T.epub''"
    by code_simp
  have dir: "tmpdir ?e' = ''/tmp/1.5''"
    by (simp add: example_book_def Ebook_init_def)
  have rank: "walk_rank example_externals = length"
    by (simp add: example_externals_def)
  have archive: "ZipFile ZIP_DEFLATED (zip_entries ?w' ''/home/u/T.epub'') = example_archive"
    by code_simp
  have table: "files ?w' = example_staged_files @ [(''/home/u/T.epub'', example_archive)]"
    by simp
  note inst = epub_archive_entries [OF fmt example_epub_build]
  from inst [THEN conjunct1]
  have stored: "map_of (example_staged_files @ [(''/home/u/T.epub'', example_archive)])
      ''/home/u/T.epub'' = Some example_archive"
    unfolding dest archive table .
  from inst [THEN conjunct2]
  have entries: "list_all2 (stores ''/home/u/T.epub'') (zip_entries ?w' ''/home/u/T.epub'')
      (os_walk_files length ''/tmp/1.5'' ?w')"
    unfolding dest dir rank .
  from fmt example_epub_build stored entries show ?thesis
    by (intro conjI)
qed

text \<open>
  C2, as stated, fails for the book \<^verbatim>\<open>T\<close> with the chapter \<^verbatim>\<open>C1\<close>, staged in
  \<^verbatim>\<open>/tmp/1.5\<close> and built in the working directory \<^verbatim>\<open>/home/u\<close>: the files of the
  staging directory have the relative paths of the first list, the archive names its
  entries as in the second, and no entry is named \<^verbatim>\<open>C1.html\<close>.
\<close>

theorem epub_layout_counterexample:
  "relative_names example_externals ''/tmp/1.5''
     (snd (snd (create example_externals (example_book ''epub'') example_world))) =
     [''T.opf'', ''toc.ncx'', ''C1.html'', ''toc.html'', ''cover.jpg''] \<and>
   map fst (zip_entries
     (snd (snd (create example_externals (example_book ''epub'') example_world)))
     ''/home/u/T.epub'') =
     [''tmp/1.5/T.opf'', ''tmp/1.5/toc.ncx'', ''tmp/1.5/C1.html'', ''tmp/1.5/toc.html'',
      ''tmp/1.5/cover.jpg''] \<and>
   map_of (zip_entries
     (snd (snd (create example_externals (example_book ''epub'') example_world)))
     ''/home/u/T.epub'')
     ''C1.html'' = None"
  unfolding example_epub_build by code_simp

text \<open>
  The same book built with the staging directory as working directory: the walk meets
  the archive after \<^verbatim>\<open>T.opf\<close>, and the archive holds an entry for itself with what
  the read of the open archive returned.
\<close>

lemma example_epub_build_inside:
  "zip_entries
     (snd (snd (create (example_externals\<lparr>cwd := ''/tmp/1.5''\<rparr>) (example_book ''epub'')
        example_world)))
     ''/tmp/1.5/T.epub'' =
     [(''tmp/1.5/T.opf'', Data ''opf.xml''),
      (''tmp/1.5/T.epub'', Data []),
      (''tmp/1.5/toc.ncx'', Data ''toc.xml''),
      (''tmp/1.5/C1.html'', Data ''<p>hi</p>''),
      (''tmp/1.5/toc.html'', Data ''toc.html''),
      (''tmp/1.5/cover.jpg'', Data ''JPG'')]"
  by code_simp

end
